theory Spec2Isabelle
  imports Complex_Main "HOL-Library.Monad_Syntax" "HOL-Library.Sublist"
begin

section \<open>The agronomic decision engine of farm-monitor\<close>

text \<open>
  A shallow embedding of \<^verbatim>\<open>AgronomicAnalyzer\<close> in
  \<^verbatim>\<open>backend/services/analysis.py\<close>. Python numbers (\<^verbatim>\<open>int\<close> and
  \<^verbatim>\<open>float\<close> alike) are real numbers here, so rounding, infinities and NaN are not
  represented. Python strings are byte lists holding their UTF-8 encoding. An exception
  escaping a function is the result \<open>None\<close> of an \<open>option\<close>: the only exception the
  engine can let escape is the \<^verbatim>\<open>TypeError\<close> of an ordering comparison with
  Python's \<^verbatim>\<open>None\<close>.
\<close>

subsection \<open>Values read from the upstream dictionaries\<close>

text \<open>
  A numeric entry of a dictionary holds a number or \<^verbatim>\<open>None\<close>
  (\<^verbatim>\<open>SatelliteService._get_statistics\<close> returns \<^verbatim>\<open>{'mean': None, ...}\<close>
  after a failure). A missing key is the \<open>None\<close> of the field's \<open>option\<close>.
\<close>

datatype pynum = PyNone | Num real

text \<open>\<^verbatim>\<open>d.get(key, default)\<close>\<close>

definition get_or :: "pynum option \<Rightarrow> real \<Rightarrow> pynum" where
  "get_or entry dflt = (case entry of None \<Rightarrow> Num dflt | Some v \<Rightarrow> v)"

text \<open>
  The ordering comparisons \<^verbatim>\<open>v < c\<close>, \<^verbatim>\<open>v > c\<close> and \<^verbatim>\<open>v >= c\<close> against a
  number raise \<^verbatim>\<open>TypeError\<close> when \<open>v\<close> is \<^verbatim>\<open>None\<close>; \<^verbatim>\<open>v == c\<close> never raises.
\<close>

fun py_lt :: "pynum \<Rightarrow> real \<Rightarrow> bool option" where
  "py_lt PyNone c = None"
| "py_lt (Num x) c = Some (x < c)"

fun py_gt :: "pynum \<Rightarrow> real \<Rightarrow> bool option" where
  "py_gt PyNone c = None"
| "py_gt (Num x) c = Some (x > c)"

fun py_ge :: "pynum \<Rightarrow> real \<Rightarrow> bool option" where
  "py_ge PyNone c = None"
| "py_ge (Num x) c = Some (x \<ge> c)"

fun py_eq :: "pynum \<Rightarrow> real \<Rightarrow> bool" where
  "py_eq PyNone c = False"
| "py_eq (Num x) c = (x = c)"

text \<open>
  The weather analysis dictionary, with the keys the engine reads. A flag is read with
  \<^verbatim>\<open>.get(key)\<close> and tested for truth: a missing key and \<^verbatim>\<open>None\<close> are both
  false, and both are the \<open>None\<close> of the flag's \<open>option\<close>.
\<close>

record weather_analysis =
  total_rainfall_30d :: "pynum option"
  forecast_rain_7d :: "pynum option"
  avg_temperature :: "pynum option"
  drought_risk :: "bool option"
  flood_risk :: "bool option"
  temperature_stress :: "bool option"

definition truthy :: "bool option \<Rightarrow> bool" where
  "truthy flag = (case flag of None \<Rightarrow> False | Some b \<Rightarrow> b)"

text \<open>The empty dictionary \<^verbatim>\<open>{}\<close>.\<close>

definition empty_analysis :: weather_analysis where
  "empty_analysis =
     \<lparr>total_rainfall_30d = None, forecast_rain_7d = None, avg_temperature = None,
      drought_risk = None, flood_risk = None, temperature_stress = None\<rparr>"

record weather_data =
  analysis :: "weather_analysis option"

record satellite_data =
  ndvi_mean :: "pynum option"
  ndmi_mean :: "pynum option"

subsection \<open>The result\<close>

record risks =
  drought :: string
  flood :: string
  disease :: string
  heat_stress :: string
  overall :: string

text \<open>
  The keys \<^verbatim>\<open>'forecast_rain_7d'\<close> and \<^verbatim>\<open>'avg_temperature'\<close> of the metrics carry
  the suffix \<open>_metric\<close> here, the plain names being the fields of the weather analysis.
\<close>

record metrics =
  ndvi :: pynum
  ndmi :: pynum
  rainfall_30d :: pynum
  forecast_rain_7d_metric :: pynum
  avg_temperature_metric :: pynum

record assessment =
  health_status :: string
  growth_stage :: string
  recommendations :: string
  risks :: risks
  metrics :: metrics

subsection \<open>Crop profiles\<close>

record thresholds =
  excellent :: real
  good :: real
  moderate :: real
  poor :: real

definition CROP_NDVI_THRESHOLDS :: "(string \<times> thresholds) list" where
  "CROP_NDVI_THRESHOLDS =
    [(''wheat'', \<lparr>excellent = 0.7, good = 0.5, moderate = 0.3, poor = 0.2\<rparr>),
     (''corn'', \<lparr>excellent = 0.75, good = 0.55, moderate = 0.35, poor = 0.25\<rparr>),
     (''rice'', \<lparr>excellent = 0.8, good = 0.6, moderate = 0.4, poor = 0.3\<rparr>),
     (''soybean'', \<lparr>excellent = 0.7, good = 0.5, moderate = 0.3, poor = 0.2\<rparr>),
     (''cotton'', \<lparr>excellent = 0.65, good = 0.45, moderate = 0.3, poor = 0.2\<rparr>),
     (''vegetables'', \<lparr>excellent = 0.7, good = 0.5, moderate = 0.35, poor = 0.25\<rparr>),
     (''fruit'', \<lparr>excellent = 0.75, good = 0.55, moderate = 0.4, poor = 0.3\<rparr>),
     (''other'', \<lparr>excellent = 0.7, good = 0.5, moderate = 0.3, poor = 0.2\<rparr>)]"

text \<open>
  \<^verbatim>\<open>str.lower()\<close> on the ASCII letters. Python also lowers letters outside ASCII; no
  such letter becomes one of the letters of a crop name of the table, so the lookup
  below finds the same profile.
\<close>

definition lower_char :: "char \<Rightarrow> char" where
  "lower_char c =
     (case map_of (zip ''ABCDEFGHIJKLMNOPQRSTUVWXYZ'' ''abcdefghijklmnopqrstuvwxyz'') c of
        Some l \<Rightarrow> l
      | None \<Rightarrow> c)"

definition lower :: "string \<Rightarrow> string" where
  "lower s = map lower_char s"

text \<open>
  \<^verbatim>\<open>CROP_NDVI_THRESHOLDS.get(crop_type.lower(), CROP_NDVI_THRESHOLDS['other'])\<close>; the
  key \<^verbatim>\<open>'other'\<close> is in the table, so the default is written out.
\<close>

definition crop_thresholds :: "string \<Rightarrow> thresholds" where
  "crop_thresholds crop_type =
     (case map_of CROP_NDVI_THRESHOLDS (lower crop_type) of
        Some t \<Rightarrow> t
      | None \<Rightarrow> \<lparr>excellent = 0.7, good = 0.5, moderate = 0.3, poor = 0.2\<rparr>)"

subsection \<open>Growth stage\<close>

text \<open>
  A naive \<^verbatim>\<open>datetime\<close> is its number of microseconds since an epoch, and
  \<^verbatim>\<open>timedelta.days\<close> is the floor of a difference divided by one day.
  \<^verbatim>\<open>datetime.strptime(s, "%Y-%m-%d")\<close> is a parameter: it gives the day number of the
  date it parses, whose \<^verbatim>\<open>datetime\<close> is the midnight of that day, or \<open>None\<close> when
  it raises \<^verbatim>\<open>ValueError\<close>. \<^verbatim>\<open>datetime.now()\<close> is the parameter \<open>now\<close>.
\<close>

definition us_per_day :: int where
  "us_per_day = 86400000000"

definition timedelta_days :: "int \<Rightarrow> int \<Rightarrow> int" where
  "timedelta_days later earlier = (later - earlier) div us_per_day"

definition calculate_growth_stage ::
  "(string \<Rightarrow> int option) \<Rightarrow> int \<Rightarrow> string option \<Rightarrow> string" where
  "calculate_growth_stage strptime now planting_date =
     (case planting_date of
        None \<Rightarrow> ''Unknown''
      | Some s \<Rightarrow>
          if s = [] then ''Unknown''
          else (case strptime s of
                  None \<Rightarrow> ''Unknown''
                | Some day \<Rightarrow>
                    (let planted = day * us_per_day;
                         days_since_planting = timedelta_days now planted
                     in if days_since_planting < 0 then ''Not Planted''
                        else if days_since_planting < 30 then ''Early Growth''
                        else if days_since_planting < 60 then ''Vegetative''
                        else if days_since_planting < 90 then ''Flowering''
                        else if days_since_planting < 120 then ''Fruiting/Grain Fill''
                        else ''Maturity/Harvest'')))"

subsection \<open>Crop health\<close>

definition assess_crop_health :: "pynum \<Rightarrow> string \<Rightarrow> string \<Rightarrow> string option" where
  "assess_crop_health ndvi_v crop_type stage =
     (let t = crop_thresholds crop_type in
      do {
        e \<leftarrow> py_ge ndvi_v (excellent t);
        if e then Some ''Excellent''
        else do {
          g \<leftarrow> py_ge ndvi_v (good t);
          if g then Some ''Good''
          else do {
            m \<leftarrow> py_ge ndvi_v (moderate t);
            if m then Some ''Moderate''
            else do {
              p \<leftarrow> py_ge ndvi_v (poor t);
              if p then Some ''Poor'' else Some ''Critical''
            }
          }
        }
      })"

text \<open>The order of the five categories, lowest first.\<close>

definition health_rank :: "string \<Rightarrow> nat" where
  "health_rank h =
     (if h = ''Excellent'' then 4 else if h = ''Good'' then 3
      else if h = ''Moderate'' then 2 else if h = ''Poor'' then 1 else 0)"

subsection \<open>Recommendations\<close>

text \<open>The advisory texts, in the order of their \<^verbatim>\<open>append\<close> calls.\<close>

definition adv_inspect_field :: string where
  \<comment> \<open>appended at line 153\<close>
  "adv_inspect_field =
     [CHR 0xE2, CHR 0x9A, CHR 0xA0, CHR 0xEF, CHR 0xB8, CHR 0x8F]
     @ '' Low vegetation health detected. Inspect field for: ''
     @ ''(1) Nutrient deficiencies - consider soil testing, ''
     @ ''(2) Pest or disease pressure, ''
     @ ''(3) Water stress.''"

definition adv_maintain_practices :: string where
  \<comment> \<open>appended at line 160\<close>
  "adv_maintain_practices =
     [CHR 0xE2, CHR 0x9C, CHR 0x85]
     @ '' Crops showing excellent health. Maintain current practices.''"

definition adv_low_moisture :: string where
  \<comment> \<open>appended at line 166\<close>
  "adv_low_moisture =
     [CHR 0xF0, CHR 0x9F, CHR 0x92, CHR 0xA7]
     @ '' Low moisture detected (NDMI < 0.2). Consider irrigation if water is available. ''
     @ ''Monitor crop water stress symptoms.''"

definition adv_high_moisture :: string where
  \<comment> \<open>appended at line 171\<close>
  "adv_high_moisture =
     [CHR 0xF0, CHR 0x9F, CHR 0x92, CHR 0xA7]
     @ '' High moisture levels detected. Ensure proper drainage to prevent waterlogging.''"

definition adv_drought :: string where
  \<comment> \<open>appended at line 177\<close>
  "adv_drought =
     [CHR 0xF0, CHR 0x9F, CHR 0x8C, CHR 0xB5]
     @ '' Drought risk: Less than 20mm rainfall in past 30 days. ''
     @ ''Implement water conservation: mulching, reduce tillage, consider irrigation.''"

definition adv_flood :: string where
  \<comment> \<open>appended at line 183\<close>
  "adv_flood =
     [CHR 0xF0, CHR 0x9F, CHR 0x8C, CHR 0x8A]
     @ '' Heavy rainfall expected (>100mm in next 7 days). ''
     @ ''Prepare drainage systems, avoid field operations until soil dries.''"

definition adv_heat :: string where
  \<comment> \<open>appended at line 191\<close>
  "adv_heat =
     [CHR 0xF0, CHR 0x9F, CHR 0x8C, CHR 0xA1, CHR 0xEF, CHR 0xB8, CHR 0x8F]
     @ '' High temperature stress (avg >35''
     @ [CHR 0xC2, CHR 0xB0]
     @ ''C). ''
     @ ''Ensure adequate irrigation, monitor for heat stress symptoms.''"

definition adv_cold :: string where
  \<comment> \<open>appended at line 196\<close>
  "adv_cold =
     [CHR 0xE2, CHR 0x9D, CHR 0x84, CHR 0xEF, CHR 0xB8, CHR 0x8F]
     @ '' Low temperature detected (avg <10''
     @ [CHR 0xC2, CHR 0xB0]
     @ ''C). ''
     @ ''Monitor for frost damage, delay sensitive operations.''"

definition adv_no_rain :: string where
  \<comment> \<open>appended at line 204\<close>
  "adv_no_rain =
     [CHR 0xE2, CHR 0x98, CHR 0x80, CHR 0xEF, CHR 0xB8, CHR 0x8F]
     @ '' No rainfall expected in next 7 days. Plan irrigation accordingly.''"

definition adv_significant_rain :: string where
  \<comment> \<open>appended at line 208\<close>
  "adv_significant_rain =
     [CHR 0xF0, CHR 0x9F, CHR 0x8C, CHR 0xA7, CHR 0xEF, CHR 0xB8, CHR 0x8F]
     @ '' Significant rainfall expected. Delay fertilizer/pesticide applications.''"

definition adv_flowering :: string where
  \<comment> \<open>appended at line 214\<close>
  "adv_flowering =
     [CHR 0xF0, CHR 0x9F, CHR 0x8C, CHR 0xB8]
     @ '' Critical flowering stage detected. Ensure optimal water and nutrients. ''
     @ ''Avoid stress during this period for maximum yield.''"

definition adv_fungal :: string where
  \<comment> \<open>appended at line 223\<close>
  "adv_fungal =
     [CHR 0xF0, CHR 0x9F, CHR 0x8D, CHR 0x84]
     @ '' Conditions favorable for fungal diseases (high rain + moderate temp). ''
     @ ''Scout regularly, consider preventive fungicide if disease pressure is high.''"

definition adv_default :: string where
  \<comment> \<open>appended at line 230\<close>
  "adv_default =
     [CHR 0xE2, CHR 0x9C, CHR 0x85]
     @ '' Crops appear healthy. Continue regular monitoring and maintain good agricultural practices.''"

text \<open>
  Each block of \<^verbatim>\<open>_generate_recommendations\<close> is a function that gives the advisories
  the block appends, or \<open>None\<close> when a comparison in it raises.
\<close>

text \<open>Lines 152 to 162: the block on the health status.\<close>

definition health_advice :: "string \<Rightarrow> string list" where
  "health_advice health =
     (if health \<in> set [''Poor'', ''Critical''] then [adv_inspect_field]
      else if health = ''Excellent'' then [adv_maintain_practices]
      else [])"

text \<open>Lines 165 to 173: the block on the moisture index.\<close>

definition moisture_advice :: "pynum \<Rightarrow> string list option" where
  "moisture_advice ndmi_v =
     do {
       low \<leftarrow> py_lt ndmi_v 0.2;
       if low then Some [adv_low_moisture]
       else do {
         high \<leftarrow> py_gt ndmi_v 0.5;
         Some (if high then [adv_high_moisture] else [])
       }
     }"

text \<open>Lines 176 to 186: the drought and flood flags.\<close>

definition drought_advice :: "weather_analysis \<Rightarrow> string list" where
  "drought_advice wa = (if truthy (drought_risk wa) then [adv_drought] else [])"

definition flood_advice :: "weather_analysis \<Rightarrow> string list" where
  "flood_advice wa = (if truthy (flood_risk wa) then [adv_flood] else [])"

text \<open>Lines 188 to 199: the temperature flag.\<close>

definition temperature_advice :: "weather_analysis \<Rightarrow> string list option" where
  "temperature_advice wa =
     (if truthy (temperature_stress wa) then
        (let avg_temp = get_or (avg_temperature wa) 25 in
         do {
           hot \<leftarrow> py_gt avg_temp 35;
           if hot then Some [adv_heat]
           else do {
             cold \<leftarrow> py_lt avg_temp 10;
             Some (if cold then [adv_cold] else [])
           }
         })
      else Some [])"

text \<open>Lines 202 to 210: the rainfall forecast.\<close>

definition forecast_advice :: "weather_analysis \<Rightarrow> string list option" where
  "forecast_advice wa =
     (let forecast_rain = get_or (forecast_rain_7d wa) 0 in
      if py_eq forecast_rain 0 then Some [adv_no_rain]
      else do {
        much \<leftarrow> py_gt forecast_rain 50;
        Some (if much then [adv_significant_rain] else [])
      })"

text \<open>Lines 213 to 217: the flowering stage.\<close>

definition flowering_advice :: "string \<Rightarrow> string \<Rightarrow> string list" where
  "flowering_advice stage health =
     (if stage = ''Flowering'' \<and> health \<in> set [''Good'', ''Excellent'']
      then [adv_flowering] else [])"

text \<open>
  The test \<^verbatim>\<open>total_rain > 80 and 20 < avg_temp < 30\<close> of lines 222 and 262:
  \<^verbatim>\<open>and\<close> and the chained comparison stop at the first false operand.
\<close>

definition fungal_conditions :: "pynum \<Rightarrow> pynum \<Rightarrow> bool option" where
  "fungal_conditions total_rain avg_temp =
     do {
       wet \<leftarrow> py_gt total_rain 80;
       if wet then do {
         warm \<leftarrow> py_gt avg_temp 20;
         if warm then py_lt avg_temp 30 else Some False
       }
       else Some False
     }"

text \<open>Lines 220 to 226: the fungal disease risk.\<close>

definition fungal_advice :: "weather_analysis \<Rightarrow> string list option" where
  "fungal_advice wa =
     (let total_rain = get_or (total_rainfall_30d wa) 0;
          avg_temp = get_or (avg_temperature wa) 25
      in do {
        fungal \<leftarrow> fungal_conditions total_rain avg_temp;
        Some (if fungal then [adv_fungal] else [])
      })"

text \<open>The list \<^verbatim>\<open>recommendations\<close> when line 229 is reached.\<close>

definition triggered_advisories ::
  "pynum \<Rightarrow> weather_analysis \<Rightarrow> string \<Rightarrow> string \<Rightarrow> string list option" where
  "triggered_advisories ndmi_v wa stage health =
     do {
       moisture \<leftarrow> moisture_advice ndmi_v;
       temperature \<leftarrow> temperature_advice wa;
       forecast \<leftarrow> forecast_advice wa;
       fungal \<leftarrow> fungal_advice wa;
       Some (health_advice health @ moisture @ drought_advice wa @ flood_advice wa
             @ temperature @ forecast @ flowering_advice stage health @ fungal)
     }"

text \<open>Lines 229 to 232: the list that is joined.\<close>

definition recommendation_list ::
  "pynum \<Rightarrow> weather_analysis \<Rightarrow> string \<Rightarrow> string \<Rightarrow> string list option" where
  "recommendation_list ndmi_v wa stage health =
     do {
       recs \<leftarrow> triggered_advisories ndmi_v wa stage health;
       Some (if recs = [] then [adv_default] else recs)
     }"

text \<open>\<^verbatim>\<open>sep.join(xs)\<close>\<close>

fun join :: "string \<Rightarrow> string list \<Rightarrow> string" where
  "join sep [] = []"
| "join sep [x] = x"
| "join sep (x # y # ys) = x @ sep @ join sep (y # ys)"

definition separator :: string where
  "separator = '' | ''"

definition generate_recommendations ::
  "pynum \<Rightarrow> pynum \<Rightarrow> weather_analysis \<Rightarrow> string \<Rightarrow> string \<Rightarrow> string \<Rightarrow> string option" where
  "generate_recommendations ndvi_v ndmi_v wa crop_type stage health =
     do {
       recs \<leftarrow> recommendation_list ndmi_v wa stage health;
       Some (join separator recs)
     }"

text \<open>
  \<^verbatim>\<open>s.split(sep)\<close> for a separator that is not empty, as the report renderer calls it
  (\<^verbatim>\<open>recommendations.split(' | ')\<close> in \<^verbatim>\<open>pdf_gen.py\<close>): the text is cut at each
  occurrence of the separator found from left to right. \<open>piece\<close> is the text read since
  the last cut; after a cut the scan goes on behind the separator, whose first character
  is \<open>c\<close>. With the empty separator Python raises \<^verbatim>\<open>ValueError\<close>.
\<close>

fun split_from :: "string \<Rightarrow> string \<Rightarrow> string \<Rightarrow> string list" where
  "split_from sep piece [] = [piece]"
| "split_from sep piece (c # cs) =
     (if prefix sep (c # cs) then piece # split_from sep [] (drop (length sep - 1) cs)
      else split_from sep (piece @ [c]) cs)"

definition split :: "string \<Rightarrow> string \<Rightarrow> string list option" where
  "split sep s = (if sep = [] then None else Some (split_from sep [] s))"

subsection \<open>Risks\<close>

text \<open>\<^verbatim>\<open>risks.values()\<close>, in the order the keys were inserted.\<close>

definition risk_values :: "risks \<Rightarrow> string list" where
  "risk_values r = [drought r, flood r, disease r, heat_stress r, overall r]"

text \<open>Lines 272 to 278: the overall level, from the dictionary built so far.\<close>

definition assess_overall :: "risks \<Rightarrow> risks" where
  "assess_overall r =
     (let high_risks = length (filter (\<lambda>v. v = ''High'') (risk_values r));
          medium_risks = length (filter (\<lambda>v. v = ''Medium'') (risk_values r))
      in if high_risks \<ge> 2 then r\<lparr>overall := ''High''\<rparr>
         else if high_risks \<ge> 1 \<or> medium_risks \<ge> 2 then r\<lparr>overall := ''Medium''\<rparr>
         else r)"

text \<open>Lines 248 to 251.\<close>

definition drought_level :: "weather_analysis \<Rightarrow> pynum \<Rightarrow> string option" where
  "drought_level wa ndmi_v =
     (if truthy (drought_risk wa) then Some ''High''
      else do {
        dry \<leftarrow> py_lt ndmi_v 0.2;
        if dry then Some ''High''
        else do {
          little \<leftarrow> py_lt (get_or (total_rainfall_30d wa) 50) 30;
          Some (if little then ''Medium'' else ''Low'')
        }
      })"

text \<open>Lines 254 to 257.\<close>

definition flood_level :: "weather_analysis \<Rightarrow> string option" where
  "flood_level wa =
     (if truthy (flood_risk wa) then Some ''High''
      else do {
        much \<leftarrow> py_gt (get_or (forecast_rain_7d wa) 0) 50;
        Some (if much then ''Medium'' else ''Low'')
      })"

text \<open>Lines 260 to 265.\<close>

definition disease_level :: "weather_analysis \<Rightarrow> string option" where
  "disease_level wa =
     (let total_rain = get_or (total_rainfall_30d wa) 0;
          avg_temp = get_or (avg_temperature wa) 25
      in do {
        fungal \<leftarrow> fungal_conditions total_rain avg_temp;
        if fungal then Some ''High''
        else do {
          wet \<leftarrow> py_gt total_rain 50;
          Some (if wet then ''Medium'' else ''Low'')
        }
      })"

text \<open>Lines 268 and 269.\<close>

definition heat_stress_level :: "weather_analysis \<Rightarrow> string" where
  "heat_stress_level wa = (if truthy (temperature_stress wa) then ''High'' else ''Low'')"

definition assess_risks :: "weather_analysis \<Rightarrow> pynum \<Rightarrow> pynum \<Rightarrow> risks option" where
  "assess_risks wa ndvi_v ndmi_v =
     do {
       d \<leftarrow> drought_level wa ndmi_v;
       f \<leftarrow> flood_level wa;
       s \<leftarrow> disease_level wa;
       Some (assess_overall
               \<lparr>drought = d, flood = f, disease = s, heat_stress = heat_stress_level wa,
                overall = ''Low''\<rparr>)
     }"

subsection \<open>The engine\<close>

definition analyze ::
  "(string \<Rightarrow> int option) \<Rightarrow> int \<Rightarrow> weather_data \<Rightarrow> satellite_data \<Rightarrow> string
     \<Rightarrow> string option \<Rightarrow> real \<Rightarrow> assessment option" where
  "analyze strptime now wd sd crop_type planting_date area =
     (let ndvi_v = get_or (ndvi_mean sd) 0.5;
          ndmi_v = get_or (ndmi_mean sd) 0.3;
          wa = (case analysis wd of None \<Rightarrow> empty_analysis | Some a \<Rightarrow> a);
          total_rain = get_or (total_rainfall_30d wa) 0;
          forecast_rain = get_or (forecast_rain_7d wa) 0;
          avg_temp = get_or (avg_temperature wa) 25;
          stage = calculate_growth_stage strptime now planting_date
      in do {
        health \<leftarrow> assess_crop_health ndvi_v crop_type stage;
        recs \<leftarrow> generate_recommendations ndvi_v ndmi_v wa crop_type stage health;
        r \<leftarrow> assess_risks wa ndvi_v ndmi_v;
        Some \<lparr>health_status = health, growth_stage = stage, recommendations = recs,
              risks = r,
              metrics = \<lparr>ndvi = ndvi_v, ndmi = ndmi_v, rainfall_30d = total_rain,
                         forecast_rain_7d_metric = forecast_rain,
                         avg_temperature_metric = avg_temp\<rparr>\<rparr>
      })"

subsection \<open>Well-typed inputs\<close>

text \<open>
  The declared types of the engine's inputs are numbers for the numeric entries: an entry
  is well typed when it is missing or holds a number, not \<^verbatim>\<open>None\<close>.
\<close>

definition number_or_missing :: "pynum option \<Rightarrow> bool" where
  "number_or_missing entry = (entry \<noteq> Some PyNone)"

definition well_typed_analysis :: "weather_analysis \<Rightarrow> bool" where
  "well_typed_analysis wa =
     (number_or_missing (total_rainfall_30d wa) \<and> number_or_missing (forecast_rain_7d wa)
      \<and> number_or_missing (avg_temperature wa))"

definition well_typed_inputs :: "weather_data \<Rightarrow> satellite_data \<Rightarrow> bool" where
  "well_typed_inputs wd sd =
     (number_or_missing (ndvi_mean sd) \<and> number_or_missing (ndmi_mean sd)
      \<and> (case analysis wd of None \<Rightarrow> True | Some wa \<Rightarrow> well_typed_analysis wa))"

text \<open>The thirteen advisory texts.\<close>

definition all_advisories :: "string list" where
  "all_advisories =
     [adv_inspect_field, adv_maintain_practices, adv_low_moisture, adv_high_moisture,
      adv_drought, adv_flood, adv_heat, adv_cold, adv_no_rain, adv_significant_rain,
      adv_flowering, adv_fungal, adv_default]"

section \<open>Properties\<close>

subsection \<open>Numbers and missing entries\<close>

lemma get_or_number:
  "number_or_missing entry \<Longrightarrow> \<exists>x. get_or entry dflt = Num x"
  by (cases entry; cases "the entry") (auto simp: number_or_missing_def get_or_def)

lemma fungal_conditions_Num:
  "fungal_conditions (Num r) (Num t) = Some (80 < r \<and> 20 < t \<and> t < 30)"
  by (simp add: fungal_conditions_def)

subsection \<open>Growth stage\<close>

lemma timedelta_days_offset:
  assumes "0 \<le> t" "t < us_per_day"
  shows "timedelta_days ((d + k) * us_per_day + t) (d * us_per_day) = k"
proof -
  have eq: "(d + k) * us_per_day + t - d * us_per_day = k * us_per_day + t"
    by (simp add: algebra_simps)
  show ?thesis
    unfolding timedelta_days_def eq using assms by (simp add: us_per_day_def)
qed

text \<open>
  Claim C3. The growth stage is decided by the whole number \<open>n\<close> of days since the
  midnight of the planting date, in half-open intervals: below 0 it is Not Planted, from
  0 it is Early Growth, from 30 Vegetative, from 60 Flowering, from 90 Fruiting/Grain
  Fill and from 120 Maturity/Harvest. In particular, at any time \<open>t\<close> of the day that is
  0, 29, 30, 59, 60, 89, 90, 119 and 120 days after the planting date the stages are
  Early Growth, Early Growth, Vegetative, Vegetative, Flowering, Flowering,
  Fruiting/Grain Fill, Fruiting/Grain Fill and Maturity/Harvest. A planting date that is
  missing (\<^verbatim>\<open>None\<close> or the empty string) or that does not parse gives Unknown.
\<close>

theorem growth_stage_buckets:
  "calculate_growth_stage strptime now None = ''Unknown''
   \<and> calculate_growth_stage strptime now (Some []) = ''Unknown''
   \<and> (strptime bad = None \<longrightarrow> calculate_growth_stage strptime now (Some bad) = ''Unknown'')
   \<and> (s \<noteq> [] \<and> strptime s = Some day \<longrightarrow>
        (let n = timedelta_days now (day * us_per_day);
             g = calculate_growth_stage strptime now (Some s)
         in (g = ''Not Planted'' \<longleftrightarrow> n < 0)
            \<and> (g = ''Early Growth'' \<longleftrightarrow> 0 \<le> n \<and> n < 30)
            \<and> (g = ''Vegetative'' \<longleftrightarrow> 30 \<le> n \<and> n < 60)
            \<and> (g = ''Flowering'' \<longleftrightarrow> 60 \<le> n \<and> n < 90)
            \<and> (g = ''Fruiting/Grain Fill'' \<longleftrightarrow> 90 \<le> n \<and> n < 120)
            \<and> (g = ''Maturity/Harvest'' \<longleftrightarrow> 120 \<le> n)))
   \<and> (s \<noteq> [] \<and> strptime s = Some day \<and> 0 \<le> t \<and> t < us_per_day \<longrightarrow>
        map (\<lambda>k. calculate_growth_stage strptime ((day + k) * us_per_day + t) (Some s))
          [0, 29, 30, 59, 60, 89, 90, 119, 120]
        = [''Early Growth'', ''Early Growth'', ''Vegetative'', ''Vegetative'', ''Flowering'',
           ''Flowering'', ''Fruiting/Grain Fill'', ''Fruiting/Grain Fill'',
           ''Maturity/Harvest''])"
proof -
  have "map (\<lambda>k. calculate_growth_stage strptime ((day + k) * us_per_day + t) (Some s))
          [0, 29, 30, 59, 60, 89, 90, 119, 120]
        = [''Early Growth'', ''Early Growth'', ''Vegetative'', ''Vegetative'', ''Flowering'',
           ''Flowering'', ''Fruiting/Grain Fill'', ''Fruiting/Grain Fill'',
           ''Maturity/Harvest'']"
    if "s \<noteq> []" "strptime s = Some day" "0 \<le> t" "t < us_per_day"
    using that by (simp add: calculate_growth_stage_def timedelta_days_offset)
  then show ?thesis
    by (simp add: calculate_growth_stage_def Let_def)
qed

theorem growth_stage_buckets_witness:
  "''2026-09-05'' \<noteq> []
   \<and> (\<lambda>s. if s = ''2026-09-05'' then Some 20701 else None) ''2026-09-05'' = Some (20701::int)
   \<and> (\<lambda>s. if s = ''2026-09-05'' then Some (20701::int) else None) ''next week'' = None
   \<and> (0::int) \<le> 43200000000 \<and> 43200000000 < us_per_day
   \<and> calculate_growth_stage (\<lambda>s. if s = ''2026-09-05'' then Some 20701 else None)
        ((20701 + 60) * us_per_day + 43200000000) (Some ''2026-09-05'') = ''Flowering''
   \<and> calculate_growth_stage (\<lambda>s. if s = ''2026-09-05'' then Some 20701 else None)
        ((20701 + 60) * us_per_day + 43200000000) (Some ''next week'') = ''Unknown''"
  using growth_stage_buckets [of "\<lambda>s. if s = ''2026-09-05'' then Some 20701 else None"
      "(20701 + 60) * us_per_day + 43200000000" "''next week''" "''2026-09-05''" 20701
      43200000000]
  by (simp add: us_per_day_def)

subsection \<open>Crop health\<close>

lemma assess_crop_health_Num:
  "assess_crop_health (Num x) crop stage =
     Some (let t = crop_thresholds crop in
           if x \<ge> excellent t then ''Excellent'' else if x \<ge> good t then ''Good''
           else if x \<ge> moderate t then ''Moderate'' else if x \<ge> poor t then ''Poor''
           else ''Critical'')"
  by (simp add: assess_crop_health_def Let_def)

lemma crop_thresholds_descending:
  "poor (crop_thresholds crop) < moderate (crop_thresholds crop)
   \<and> moderate (crop_thresholds crop) < good (crop_thresholds crop)
   \<and> good (crop_thresholds crop) < excellent (crop_thresholds crop)"
proof (cases "map_of CROP_NDVI_THRESHOLDS (lower crop)")
  case None
  then show ?thesis by (simp add: crop_thresholds_def)
next
  case (Some t)
  then have "(lower crop, t) \<in> set CROP_NDVI_THRESHOLDS" by (rule map_of_SomeD)
  then have "poor t < moderate t \<and> moderate t < good t \<and> good t < excellent t"
    by (auto simp: CROP_NDVI_THRESHOLDS_def)
  with Some show ?thesis by (simp add: crop_thresholds_def)
qed

text \<open>
  Claim C4. For every crop-type string and every real vegetation index \<open>x\<close> the health
  classifier returns one of Excellent, Good, Moderate, Poor and Critical, and exactly
  the one of the first cut point of the crop's profile, taken in descending order, that
  \<open>x\<close> meets or exceeds (Critical when it meets none). For a fixed crop type the
  category does not go down when the index goes up.
\<close>

theorem health_classification:
  "\<exists>h. assess_crop_health (Num x) crop stage = Some h
     \<and> h \<in> {''Excellent'', ''Good'', ''Moderate'', ''Poor'', ''Critical''}
     \<and> (h = ''Excellent'' \<longleftrightarrow> excellent (crop_thresholds crop) \<le> x)
     \<and> (h = ''Good'' \<longleftrightarrow> good (crop_thresholds crop) \<le> x \<and> x < excellent (crop_thresholds crop))
     \<and> (h = ''Moderate'' \<longleftrightarrow> moderate (crop_thresholds crop) \<le> x \<and> x < good (crop_thresholds crop))
     \<and> (h = ''Poor'' \<longleftrightarrow> poor (crop_thresholds crop) \<le> x \<and> x < moderate (crop_thresholds crop))
     \<and> (h = ''Critical'' \<longleftrightarrow> x < poor (crop_thresholds crop))
     \<and> (x \<le> y \<longrightarrow>
          (\<exists>k. assess_crop_health (Num y) crop stage = Some k \<and> health_rank h \<le> health_rank k))"
  using crop_thresholds_descending [of crop]
  by (simp add: assess_crop_health_Num Let_def health_rank_def)

theorem health_classification_witness:
  "(0.45::real) \<le> 0.62
   \<and> assess_crop_health (Num 0.45) ''Corn'' ''Unknown'' = Some ''Moderate''
   \<and> assess_crop_health (Num 0.62) ''Corn'' ''Unknown'' = Some ''Good''
   \<and> health_rank ''Moderate'' \<le> health_rank ''Good''"
  using health_classification [of "0.45" "''Corn''" "''Unknown''" "0.62"]
  by (simp add: assess_crop_health_Num crop_thresholds_def CROP_NDVI_THRESHOLDS_def lower_def
      lower_char_def health_rank_def)

subsection \<open>Risks\<close>

lemma assess_overall_unfold:
  "assess_overall r =
     r\<lparr>overall :=
         (if 2 \<le> length (filter (\<lambda>v. v = ''High'') (risk_values r)) then ''High''
          else if 1 \<le> length (filter (\<lambda>v. v = ''High'') (risk_values r))
                  \<or> 2 \<le> length (filter (\<lambda>v. v = ''Medium'') (risk_values r)) then ''Medium''
          else overall r)\<rparr>"
proof -
  define highs where "highs = length (filter (\<lambda>v. v = ''High'') (risk_values r))"
  define mediums where "mediums = length (filter (\<lambda>v. v = ''Medium'') (risk_values r))"
  have "(if highs \<ge> 2 then r\<lparr>overall := ''High''\<rparr>
         else if highs \<ge> 1 \<or> mediums \<ge> 2 then r\<lparr>overall := ''Medium''\<rparr> else r)
        = r\<lparr>overall := (if 2 \<le> highs then ''High''
                          else if 1 \<le> highs \<or> 2 \<le> mediums then ''Medium'' else overall r)\<rparr>"
    by simp
  then show ?thesis
    unfolding assess_overall_def Let_def highs_def mediums_def .
qed

lemma overall_update_fields:
  "drought (r\<lparr>overall := v\<rparr>) = drought r" "flood (r\<lparr>overall := v\<rparr>) = flood r"
  "disease (r\<lparr>overall := v\<rparr>) = disease r" "heat_stress (r\<lparr>overall := v\<rparr>) = heat_stress r"
  "r\<lparr>overall := v, overall := w\<rparr> = r\<lparr>overall := w\<rparr>"
  by simp_all

lemma assess_overall_fields:
  "drought (assess_overall r) = drought r \<and> flood (assess_overall r) = flood r
   \<and> disease (assess_overall r) = disease r \<and> heat_stress (assess_overall r) = heat_stress r"
  unfolding assess_overall_unfold overall_update_fields by (simp only: simp_thms)

lemma assess_overall_again:
  "assess_overall ((assess_overall r)\<lparr>overall := ''Low''\<rparr>) = assess_overall (r\<lparr>overall := ''Low''\<rparr>)"
proof -
  have "(assess_overall r)\<lparr>overall := ''Low''\<rparr> = r\<lparr>overall := ''Low''\<rparr>"
    unfolding assess_overall_unfold overall_update_fields ..
  then show ?thesis by (simp only:)
qed

lemma assess_risks_overall:
  assumes "assess_risks wa ndvi_v ndmi_v = Some r"
  shows "r = assess_overall (r\<lparr>overall := ''Low''\<rparr>)"
proof -
  from assms obtain x where r: "r = assess_overall x" and x: "overall x = ''Low''"
    by (auto simp: assess_risks_def split: bind_splits)
  from x have "x\<lparr>overall := ''Low''\<rparr> = x" by simp
  then show ?thesis unfolding r assess_overall_again by simp
qed

lemma count_levels:
  "length (filter P [d, f, s, h, ''Low''])
   = length (filter P [d, f, s, h]) + (if P ''Low'' then 1 else 0)"
  by simp

lemma drought_level_total:
  "ndmi_v \<noteq> PyNone \<Longrightarrow> number_or_missing (total_rainfall_30d wa) \<Longrightarrow>
     \<exists>l. drought_level wa ndmi_v = Some l"
  using get_or_number [of "total_rainfall_30d wa" 50]
  by (cases ndmi_v) (auto simp: drought_level_def)

lemma flood_level_total:
  "number_or_missing (forecast_rain_7d wa) \<Longrightarrow> \<exists>l. flood_level wa = Some l"
  using get_or_number [of "forecast_rain_7d wa" 0]
  by (auto simp: flood_level_def)

lemma disease_level_total:
  "number_or_missing (total_rainfall_30d wa) \<Longrightarrow> number_or_missing (avg_temperature wa) \<Longrightarrow>
     \<exists>l. disease_level wa = Some l"
  using get_or_number [of "total_rainfall_30d wa" 0] get_or_number [of "avg_temperature wa" 25]
  by (auto simp: disease_level_def fungal_conditions_Num)

lemma assess_risks_total:
  assumes "ndmi_v \<noteq> PyNone" "well_typed_analysis wa"
  shows "\<exists>r. assess_risks wa ndvi_v ndmi_v = Some r"
proof -
  from assms obtain d f s where
    "drought_level wa ndmi_v = Some d" "flood_level wa = Some f" "disease_level wa = Some s"
    using drought_level_total flood_level_total disease_level_total
    unfolding well_typed_analysis_def by metis
  then show ?thesis by (simp add: assess_risks_def)
qed

lemma overall_of_levels:
  "let r = assess_overall
             \<lparr>drought = d, flood = f, disease = s, heat_stress = h, overall = ''Low''\<rparr>;
       highs = length (filter (\<lambda>v. v = ''High'') [d, f, s, h]);
       mediums = length (filter (\<lambda>v. v = ''Medium'') [d, f, s, h])
   in drought r = d \<and> flood r = f \<and> disease r = s \<and> heat_stress r = h
      \<and> (overall r = ''High'' \<longleftrightarrow> 2 \<le> highs)
      \<and> (overall r = ''Medium'' \<longleftrightarrow> highs < 2 \<and> (highs = 1 \<or> 2 \<le> mediums))
      \<and> (overall r = ''Low'' \<longleftrightarrow> highs = 0 \<and> mediums < 2)"
proof -
  define highs where "highs = length (filter (\<lambda>v. v = ''High'') [d, f, s, h])"
  define mediums where "mediums = length (filter (\<lambda>v. v = ''Medium'') [d, f, s, h])"
  have hs: "length (filter (\<lambda>v. v = ''High'') [d, f, s, h, ''Low'']) = highs"
    and ms: "length (filter (\<lambda>v. v = ''Medium'') [d, f, s, h, ''Low'']) = mediums"
    unfolding highs_def mediums_def count_levels by simp_all
  have "let r = assess_overall
                  \<lparr>drought = d, flood = f, disease = s, heat_stress = h, overall = ''Low''\<rparr>
    in drought r = d \<and> flood r = f \<and> disease r = s \<and> heat_stress r = h
       \<and> (overall r = ''High'' \<longleftrightarrow> 2 \<le> highs)
       \<and> (overall r = ''Medium'' \<longleftrightarrow> highs < 2 \<and> (highs = 1 \<or> 2 \<le> mediums))
       \<and> (overall r = ''Low'' \<longleftrightarrow> highs = 0 \<and> mediums < 2)"
    unfolding assess_overall_def risk_values_def Let_def risks.simps hs ms
    by (auto split: if_splits)
  then show ?thesis
    unfolding highs_def mediums_def Let_def .
qed

text \<open>
  Claim C5. Whatever the four category levels \<open>d\<close>, \<open>f\<close>, \<open>s\<close> and \<open>h\<close> (drought, flood,
  disease, heat stress) are, so for each of the 81 combinations of Low, Medium and High,
  the overall level computed from them is High exactly when at least two of the four are
  High; otherwise it is Medium exactly when one is High or at least two are Medium;
  otherwise it is Low. On every well-typed input the risk assessor returns risks whose
  overall level is related in this way to their own four category levels.
\<close>

theorem overall_risk_aggregation:
  "(let r = assess_overall
              \<lparr>drought = d, flood = f, disease = s, heat_stress = h, overall = ''Low''\<rparr>;
        highs = length (filter (\<lambda>v. v = ''High'') [d, f, s, h]);
        mediums = length (filter (\<lambda>v. v = ''Medium'') [d, f, s, h])
    in drought r = d \<and> flood r = f \<and> disease r = s \<and> heat_stress r = h
       \<and> (overall r = ''High'' \<longleftrightarrow> 2 \<le> highs)
       \<and> (overall r = ''Medium'' \<longleftrightarrow> highs < 2 \<and> (highs = 1 \<or> 2 \<le> mediums))
       \<and> (overall r = ''Low'' \<longleftrightarrow> highs = 0 \<and> mediums < 2))
   \<and> (ndmi_v \<noteq> PyNone \<and> well_typed_analysis wa \<longrightarrow>
        (\<exists>r. assess_risks wa ndvi_v ndmi_v = Some r
           \<and> (let highs = length (filter (\<lambda>v. v = ''High'')
                                  [drought r, flood r, disease r, heat_stress r]);
                   mediums = length (filter (\<lambda>v. v = ''Medium'')
                                    [drought r, flood r, disease r, heat_stress r])
               in (overall r = ''High'' \<longleftrightarrow> 2 \<le> highs)
                  \<and> (overall r = ''Medium'' \<longleftrightarrow> highs < 2 \<and> (highs = 1 \<or> 2 \<le> mediums))
                  \<and> (overall r = ''Low'' \<longleftrightarrow> highs = 0 \<and> mediums < 2))))"
proof (intro conjI impI)
  show "let r = assess_overall
              \<lparr>drought = d, flood = f, disease = s, heat_stress = h, overall = ''Low''\<rparr>;
        highs = length (filter (\<lambda>v. v = ''High'') [d, f, s, h]);
        mediums = length (filter (\<lambda>v. v = ''Medium'') [d, f, s, h])
    in drought r = d \<and> flood r = f \<and> disease r = s \<and> heat_stress r = h
       \<and> (overall r = ''High'' \<longleftrightarrow> 2 \<le> highs)
       \<and> (overall r = ''Medium'' \<longleftrightarrow> highs < 2 \<and> (highs = 1 \<or> 2 \<le> mediums))
       \<and> (overall r = ''Low'' \<longleftrightarrow> highs = 0 \<and> mediums < 2)"
    by (rule overall_of_levels)
next
  assume "ndmi_v \<noteq> PyNone \<and> well_typed_analysis wa"
  then obtain r where r: "assess_risks wa ndvi_v ndmi_v = Some r"
    using assess_risks_total [of ndmi_v wa ndvi_v] by blast
  have "r\<lparr>overall := ''Low''\<rparr>
        = \<lparr>drought = drought r, flood = flood r, disease = disease r,
           heat_stress = heat_stress r, overall = ''Low''\<rparr>"
    by simp
  with assess_risks_overall [OF r]
  have "r = assess_overall \<lparr>drought = drought r, flood = flood r, disease = disease r,
                            heat_stress = heat_stress r, overall = ''Low''\<rparr>"
    by simp
  with overall_of_levels [of "drought r" "flood r" "disease r" "heat_stress r"] r
  show "\<exists>r. assess_risks wa ndvi_v ndmi_v = Some r
           \<and> (let highs = length (filter (\<lambda>v. v = ''High'')
                                  [drought r, flood r, disease r, heat_stress r]);
                   mediums = length (filter (\<lambda>v. v = ''Medium'')
                                    [drought r, flood r, disease r, heat_stress r])
               in (overall r = ''High'' \<longleftrightarrow> 2 \<le> highs)
                  \<and> (overall r = ''Medium'' \<longleftrightarrow> highs < 2 \<and> (highs = 1 \<or> 2 \<le> mediums))
                  \<and> (overall r = ''Low'' \<longleftrightarrow> highs = 0 \<and> mediums < 2))"
    unfolding Let_def by metis
qed

theorem overall_risk_aggregation_witness:
  "Num 0.1 \<noteq> PyNone
   \<and> well_typed_analysis (empty_analysis\<lparr>temperature_stress := Some True\<rparr>)
   \<and> assess_risks (empty_analysis\<lparr>temperature_stress := Some True\<rparr>) (Num 0.5) (Num 0.1)
     = Some \<lparr>drought = ''High'', flood = ''Low'', disease = ''Low'', heat_stress = ''High'',
             overall = ''High''\<rparr>"
  using overall_risk_aggregation [of "''High''" "''Low''" "''Low''" "''High''" "Num 0.1"
      "empty_analysis\<lparr>temperature_stress := Some True\<rparr>" "Num 0.5"]
  by (simp add: well_typed_analysis_def number_or_missing_def empty_analysis_def
      assess_risks_def drought_level_def flood_level_def disease_level_def
      heat_stress_level_def fungal_conditions_Num assess_overall_def risk_values_def
      get_or_def truthy_def)

text \<open>
  Claim C10. The risk assessor does not read the vegetation index: two calls that differ
  only in that argument return the same risks (or raise alike).
\<close>

theorem risks_independent_of_ndvi:
  "assess_risks wa ndvi1 ndmi_v = assess_risks wa ndvi2 ndmi_v"
  by (simp add: assess_risks_def)

subsection \<open>Recommendations\<close>

lemma moisture_advice_total:
  "ndmi_v \<noteq> PyNone \<Longrightarrow> \<exists>xs. moisture_advice ndmi_v = Some xs"
  by (cases ndmi_v) (simp_all add: moisture_advice_def)

lemma temperature_advice_total:
  "number_or_missing (avg_temperature wa) \<Longrightarrow> \<exists>xs. temperature_advice wa = Some xs"
  using get_or_number [of "avg_temperature wa" 25]
  by (auto simp: temperature_advice_def)

lemma forecast_advice_total:
  "number_or_missing (forecast_rain_7d wa) \<Longrightarrow> \<exists>xs. forecast_advice wa = Some xs"
  using get_or_number [of "forecast_rain_7d wa" 0]
  by (auto simp: forecast_advice_def)

lemma fungal_advice_total:
  "number_or_missing (total_rainfall_30d wa) \<Longrightarrow> number_or_missing (avg_temperature wa) \<Longrightarrow>
     \<exists>xs. fungal_advice wa = Some xs"
  using get_or_number [of "total_rainfall_30d wa" 0] get_or_number [of "avg_temperature wa" 25]
  by (auto simp: fungal_advice_def fungal_conditions_Num)

lemma triggered_advisories_total:
  assumes "ndmi_v \<noteq> PyNone" "well_typed_analysis wa"
  shows "\<exists>fired. triggered_advisories ndmi_v wa stage health = Some fired"
proof -
  from assms obtain m t f g where
    "moisture_advice ndmi_v = Some m" "temperature_advice wa = Some t"
    "forecast_advice wa = Some f" "fungal_advice wa = Some g"
    using moisture_advice_total temperature_advice_total forecast_advice_total
      fungal_advice_total
    unfolding well_typed_analysis_def by metis
  then show ?thesis by (simp add: triggered_advisories_def)
qed

lemma recommendation_list_total:
  assumes "ndmi_v \<noteq> PyNone" "well_typed_analysis wa"
  shows "\<exists>fired recs. triggered_advisories ndmi_v wa stage health = Some fired
           \<and> recommendation_list ndmi_v wa stage health = Some recs
           \<and> recs = (if fired = [] then [adv_default] else fired)
           \<and> generate_recommendations ndvi_v ndmi_v wa crop stage health
               = Some (join separator recs)"
proof -
  from triggered_advisories_total [OF assms] obtain fired where
    fired: "triggered_advisories ndmi_v wa stage health = Some fired" by blast
  then show ?thesis
    by (simp add: recommendation_list_def generate_recommendations_def)
qed

text \<open>
  Claim C7. For every well-typed input (a numeric moisture index, weather entries that
  are numbers or missing) the recommendation composer returns a list of at least one
  advisory: the advisories of the rules that fired, or, when none fired, the single
  default advisory "crops appear healthy". The string returned is that list joined.
\<close>

theorem recommendations_nonempty:
  assumes "ndmi_v \<noteq> PyNone" "well_typed_analysis wa"
  shows "\<exists>fired recs. triggered_advisories ndmi_v wa stage health = Some fired
           \<and> recommendation_list ndmi_v wa stage health = Some recs
           \<and> recs = (if fired = [] then [adv_default] else fired)
           \<and> 1 \<le> length recs
           \<and> generate_recommendations ndvi_v ndmi_v wa crop stage health
               = Some (join separator recs)"
proof -
  from recommendation_list_total [OF assms, of stage health ndvi_v crop]
  obtain fired recs where
    *: "triggered_advisories ndmi_v wa stage health = Some fired"
       "recommendation_list ndmi_v wa stage health = Some recs"
       "recs = (if fired = [] then [adv_default] else fired)"
       "generate_recommendations ndvi_v ndmi_v wa crop stage health = Some (join separator recs)"
    by blast
  from *(3) have "1 \<le> length recs" by (cases fired) simp_all
  with * show ?thesis by blast
qed

theorem recommendations_nonempty_witness:
  "Num 0.3 \<noteq> PyNone
   \<and> well_typed_analysis (empty_analysis\<lparr>forecast_rain_7d := Some (Num 10)\<rparr>)
   \<and> triggered_advisories (Num 0.3) (empty_analysis\<lparr>forecast_rain_7d := Some (Num 10)\<rparr>)
         ''Unknown'' ''Good'' = Some []
   \<and> recommendation_list (Num 0.3) (empty_analysis\<lparr>forecast_rain_7d := Some (Num 10)\<rparr>)
         ''Unknown'' ''Good'' = Some [adv_default]"
  using recommendations_nonempty [of "Num 0.3"
      "empty_analysis\<lparr>forecast_rain_7d := Some (Num 10)\<rparr>" "''Unknown''" "''Good''"
      "Num 0.5" "''wheat''"]
  by (auto simp: well_typed_analysis_def number_or_missing_def empty_analysis_def
      triggered_advisories_def moisture_advice_def temperature_advice_def forecast_advice_def
      fungal_advice_def fungal_conditions_def health_advice_def drought_advice_def
      flood_advice_def flowering_advice_def truthy_def get_or_def)

lemma not_prefix_bar:
  "CHR ''|'' \<notin> set x \<Longrightarrow> rest = [] \<or> hd rest \<noteq> CHR ''|'' \<Longrightarrow> \<not> prefix ''| '' (x @ rest)"
  by (cases x; cases rest) auto

lemma split_from_piece:
  "CHR ''|'' \<notin> set x \<Longrightarrow> split_from '' | '' piece x = [piece @ x]"
proof (induction x arbitrary: piece)
  case Nil
  then show ?case by simp
next
  case (Cons c x)
  from Cons.prems have "\<not> prefix ''| '' (x @ [])"
    by (intro not_prefix_bar) auto
  with Cons show ?case by simp
qed

lemma split_from_separator:
  "CHR ''|'' \<notin> set x \<Longrightarrow>
     split_from '' | '' piece (x @ '' | '' @ rest) = (piece @ x) # split_from '' | '' [] rest"
proof (induction x arbitrary: piece)
  case Nil
  then show ?case by simp
next
  case (Cons c x)
  from Cons.prems have "\<not> prefix ''| '' (x @ ('' | '' @ rest))"
    by (intro not_prefix_bar) auto
  with Cons show ?case by simp
qed

lemma split_from_join:
  "xs \<noteq> [] \<Longrightarrow> \<forall>x\<in>set xs. CHR ''|'' \<notin> set x \<Longrightarrow>
     split_from '' | '' [] (join '' | '' xs) = xs"
proof (induction xs rule: induct_list012)
  case 1
  then show ?case by simp
next
  case (2 x)
  then show ?case by (simp add: split_from_piece)
next
  case (3 x y zs)
  then have x: "CHR ''|'' \<notin> set x" and tl: "split_from '' | '' [] (join '' | '' (y # zs)) = y # zs"
    by simp_all
  have "split_from '' | '' [] (join '' | '' (x # y # zs))
        = split_from '' | '' [] (x @ '' | '' @ join '' | '' (y # zs))"
    by (simp only: join.simps)
  also have "\<dots> = ([] @ x) # split_from '' | '' [] (join '' | '' (y # zs))"
    using x by (rule split_from_separator)
  finally show ?case using tl by simp
qed

lemma health_advice_set: "set (health_advice health) \<subseteq> set all_advisories"
  by (auto simp: health_advice_def all_advisories_def)

lemma moisture_advice_set:
  "moisture_advice ndmi_v = Some xs \<Longrightarrow> set xs \<subseteq> set all_advisories"
  by (auto simp: moisture_advice_def all_advisories_def split: bind_splits if_splits)

lemma drought_advice_set: "set (drought_advice wa) \<subseteq> set all_advisories"
  by (auto simp: drought_advice_def all_advisories_def)

lemma flood_advice_set: "set (flood_advice wa) \<subseteq> set all_advisories"
  by (auto simp: flood_advice_def all_advisories_def)

lemma temperature_advice_set:
  "temperature_advice wa = Some xs \<Longrightarrow> set xs \<subseteq> set all_advisories"
  by (auto simp: temperature_advice_def all_advisories_def Let_def split: bind_splits if_splits)

lemma forecast_advice_set:
  "forecast_advice wa = Some xs \<Longrightarrow> set xs \<subseteq> set all_advisories"
  by (auto simp: forecast_advice_def all_advisories_def Let_def split: bind_splits if_splits)

lemma flowering_advice_set: "set (flowering_advice stage health) \<subseteq> set all_advisories"
  by (auto simp: flowering_advice_def all_advisories_def)

lemma fungal_advice_set:
  "fungal_advice wa = Some xs \<Longrightarrow> set xs \<subseteq> set all_advisories"
  by (auto simp: fungal_advice_def all_advisories_def Let_def split: bind_splits if_splits)

lemma triggered_advisories_set:
  assumes "triggered_advisories ndmi_v wa stage health = Some fired"
  shows "set fired \<subseteq> set all_advisories"
proof -
  from assms obtain m t f g where parts:
    "moisture_advice ndmi_v = Some m" "temperature_advice wa = Some t"
    "forecast_advice wa = Some f" "fungal_advice wa = Some g"
    and fired: "fired = health_advice health @ m @ drought_advice wa @ flood_advice wa
                  @ t @ f @ flowering_advice stage health @ g"
    by (auto simp: triggered_advisories_def split: bind_splits)
  show ?thesis
    unfolding fired set_append
    using health_advice_set [of health] moisture_advice_set [OF parts(1)]
      drought_advice_set [of wa] flood_advice_set [of wa]
      temperature_advice_set [OF parts(2)] forecast_advice_set [OF parts(3)]
      flowering_advice_set [of stage health] fungal_advice_set [OF parts(4)]
    by blast
qed

lemma recommendation_list_set:
  assumes "recommendation_list ndmi_v wa stage health = Some recs"
  shows "recs \<noteq> [] \<and> set recs \<subseteq> set all_advisories"
proof -
  from assms obtain fired where
    fired: "triggered_advisories ndmi_v wa stage health = Some fired"
    and recs: "recs = (if fired = [] then [adv_default] else fired)"
    by (auto simp: recommendation_list_def split: bind_splits)
  have "adv_default \<in> set all_advisories" by (simp add: all_advisories_def)
  with triggered_advisories_set [OF fired] recs show ?thesis by auto
qed

lemma advisories_without_bar: "a \<in> set all_advisories \<Longrightarrow> CHR ''|'' \<notin> set a"
  unfolding all_advisories_def
  by (auto simp: adv_inspect_field_def adv_maintain_practices_def adv_low_moisture_def
      adv_high_moisture_def adv_drought_def adv_flood_def adv_heat_def adv_cold_def
      adv_no_rain_def adv_significant_rain_def adv_flowering_def adv_fungal_def
      adv_default_def)

lemma no_bar_no_separator: "CHR ''|'' \<notin> set a \<Longrightarrow> \<not> sublist separator a"
proof
  assume "CHR ''|'' \<notin> set a" "sublist separator a"
  from this(2) have "set separator \<subseteq> set a" by (rule set_mono_sublist)
  with \<open>CHR ''|'' \<notin> set a\<close> show False by (auto simp: separator_def)
qed

text \<open>
  Claim C8. For every well-typed input no advisory of the returned list contains the
  separator \<^verbatim>\<open>' | '\<close>, and splitting the returned string on the separator, as the
  report renderer does, gives back exactly the list of advisories in order.
\<close>

theorem separator_round_trip:
  assumes "ndmi_v \<noteq> PyNone" "well_typed_analysis wa"
  shows "\<exists>recs joined. recommendation_list ndmi_v wa stage health = Some recs
           \<and> (\<forall>a\<in>set recs. \<not> sublist separator a)
           \<and> generate_recommendations ndvi_v ndmi_v wa crop stage health = Some joined
           \<and> joined = join separator recs
           \<and> split separator joined = Some recs"
proof -
  from recommendation_list_total [OF assms, of stage health ndvi_v crop]
  obtain recs where
    recs: "recommendation_list ndmi_v wa stage health = Some recs"
    and joined: "generate_recommendations ndvi_v ndmi_v wa crop stage health
                   = Some (join separator recs)"
    by blast
  from recommendation_list_set [OF recs] advisories_without_bar
  have ne: "recs \<noteq> []" and bar: "\<forall>a\<in>set recs. CHR ''|'' \<notin> set a" by auto
  from bar have "\<forall>a\<in>set recs. \<not> sublist separator a"
    using no_bar_no_separator by blast
  moreover have "split separator (join separator recs) = Some recs"
    using split_from_join [OF ne bar] by (simp add: split_def separator_def)
  ultimately show ?thesis using recs joined by blast
qed

theorem separator_round_trip_witness:
  "Num 0.1 \<noteq> PyNone
   \<and> well_typed_analysis
        (empty_analysis\<lparr>total_rainfall_30d := Some (Num 10), forecast_rain_7d := Some (Num 0),
           drought_risk := Some True\<rparr>)
   \<and> split separator
        (join separator [adv_inspect_field, adv_low_moisture, adv_drought, adv_no_rain])
      = Some [adv_inspect_field, adv_low_moisture, adv_drought, adv_no_rain]"
  using separator_round_trip [of "Num 0.1"
      "empty_analysis\<lparr>total_rainfall_30d := Some (Num 10), forecast_rain_7d := Some (Num 0),
         drought_risk := Some True\<rparr>" "''Unknown''" "''Critical''" "Num 0.15" "''rice''"]
  by (auto simp: well_typed_analysis_def number_or_missing_def empty_analysis_def
      recommendation_list_def triggered_advisories_def moisture_advice_def
      temperature_advice_def forecast_advice_def fungal_advice_def fungal_conditions_def
      health_advice_def drought_advice_def flood_advice_def flowering_advice_def truthy_def
      get_or_def)

subsection \<open>The engine\<close>

lemma well_typed_empty_analysis: "well_typed_analysis empty_analysis"
  by (simp add: well_typed_analysis_def number_or_missing_def empty_analysis_def)

lemma calculate_growth_stage_no_parse:
  "calculate_growth_stage (\<lambda>s. None) now planting_date = ''Unknown''"
  by (simp add: calculate_growth_stage_def split: option.splits)

lemma analyze_returns:
  assumes "well_typed_inputs wd sd"
  shows "\<exists>a. analyze strptime now wd sd crop planting_date area = Some a
           \<and> growth_stage a = calculate_growth_stage strptime now planting_date"
proof -
  define wa where "wa = (case analysis wd of None \<Rightarrow> empty_analysis | Some a \<Rightarrow> a)"
  from assms have wa: "well_typed_analysis wa"
    by (auto simp: wa_def well_typed_inputs_def well_typed_empty_analysis split: option.splits)
  from assms obtain x where x: "get_or (ndvi_mean sd) 0.5 = Num x"
    using get_or_number [of "ndvi_mean sd" "0.5"] by (auto simp: well_typed_inputs_def)
  from assms obtain m where m: "get_or (ndmi_mean sd) 0.3 = Num m"
    using get_or_number [of "ndmi_mean sd" "0.3"] by (auto simp: well_typed_inputs_def)
  define stage where "stage = calculate_growth_stage strptime now planting_date"
  obtain h where h: "assess_crop_health (Num x) crop stage = Some h"
    by (simp add: assess_crop_health_Num)
  obtain recs where recs: "generate_recommendations (Num x) (Num m) wa crop stage h = Some recs"
    using recommendation_list_total [OF _ wa, of "Num m" stage h "Num x" crop] by auto
  obtain r where r: "assess_risks wa (Num x) (Num m) = Some r"
    using assess_risks_total [OF _ wa, of "Num m" "Num x"] by auto
  show ?thesis
    unfolding analyze_def Let_def wa_def [symmetric] stage_def [symmetric]
    using x m h recs r by simp
qed

text \<open>
  Claim C9. For every well-typed input (numeric entries of the two summaries that are
  numbers or missing, any crop type, any planting date, present or not, any area, any
  clock and any outcome of the date parser) \<^verbatim>\<open>analyze\<close> returns an Assessment and
  raises nothing. A planting date that fails to parse is not an error of the engine:
  the Assessment is returned with the growth stage Unknown.
\<close>

theorem analyze_total:
  assumes "well_typed_inputs wd sd"
  shows "(\<exists>a. analyze strptime now wd sd crop planting_date area = Some a
            \<and> growth_stage a = calculate_growth_stage strptime now planting_date)
         \<and> (\<exists>a. analyze (\<lambda>s. None) now wd sd crop planting_date area = Some a
            \<and> growth_stage a = ''Unknown'')"
  using analyze_returns [OF assms, of strptime now crop planting_date area]
    analyze_returns [OF assms, of "\<lambda>s. None" now crop planting_date area]
  by (simp add: calculate_growth_stage_no_parse)

theorem analyze_total_witness:
  "well_typed_inputs \<lparr>analysis = None\<rparr> \<lparr>ndvi_mean = Some (Num 0.6), ndmi_mean = None\<rparr>
   \<and> (\<exists>a. analyze (\<lambda>s. None) 0 \<lparr>analysis = None\<rparr>
              \<lparr>ndvi_mean = Some (Num 0.6), ndmi_mean = None\<rparr> ''maize''
              (Some ''05/09/2026'') 2 = Some a
          \<and> growth_stage a = ''Unknown'')"
  using analyze_total [of "\<lparr>analysis = None\<rparr>"
      "\<lparr>ndvi_mean = Some (Num 0.6), ndmi_mean = None\<rparr>" "\<lambda>s. None" 0 "''maize''"
      "Some ''05/09/2026''" 2]
  by (simp add: well_typed_inputs_def number_or_missing_def)

text \<open>
  Outside the well-typed inputs: a vegetation index that is present and \<^verbatim>\<open>None\<close>
  makes the first comparison of the health classifier raise.
\<close>

lemma analyze_null_ndvi:
  "analyze strptime now wd (sd\<lparr>ndvi_mean := Some PyNone\<rparr>) crop planting_date area = None"
  by (simp add: analyze_def get_or_def assess_crop_health_def)

lemma assess_crop_health_rice_critical:
  "assess_crop_health (Num 0.15) ''rice'' stage = Some ''Critical''"
  by (simp add: assess_crop_health_Num crop_thresholds_def CROP_NDVI_THRESHOLDS_def lower_def
      lower_char_def)

text \<open>
  Claim C6. For the crop type rice, vegetation index 0.15, moisture index 0.1, trailing
  rainfall 10 mm, the drought flag set and forecast rain 0, whatever the other flags, the
  mean temperature (a number or missing), the planting date and the area are: the
  health is Critical, the drought risk is High, and the list of recommendations, which
  the returned string splits back into, holds the inspect-field, low-moisture, drought
  and no-rain advisories in that relative order.
\<close>

theorem rice_drought_scenario:
  "\<exists>a recs.
     analyze strptime now
       \<lparr>analysis = Some \<lparr>total_rainfall_30d = Some (Num 10), forecast_rain_7d = Some (Num 0),
                          avg_temperature = map_option Num temp, drought_risk = Some True,
                          flood_risk = flood_flag, temperature_stress = temp_flag\<rparr>\<rparr>
       \<lparr>ndvi_mean = Some (Num 0.15), ndmi_mean = Some (Num 0.1)\<rparr>
       ''rice'' planting_date area = Some a
     \<and> health_status a = ''Critical''
     \<and> drought (risks a) = ''High''
     \<and> recommendations a = join separator recs
     \<and> split separator (recommendations a) = Some recs
     \<and> subseq [adv_inspect_field, adv_low_moisture, adv_drought, adv_no_rain] recs"
proof -
  define wa where "wa = \<lparr>total_rainfall_30d = Some (Num 10), forecast_rain_7d = Some (Num 0),
                          avg_temperature = map_option Num temp, drought_risk = Some True,
                          flood_risk = flood_flag, temperature_stress = temp_flag\<rparr>"
  define stage where "stage = calculate_growth_stage strptime now planting_date"
  have wt: "well_typed_analysis wa"
    by (cases temp) (simp_all add: wa_def well_typed_analysis_def number_or_missing_def)
  obtain t where t: "temperature_advice wa = Some t"
    using temperature_advice_total [of wa] wt by (auto simp: well_typed_analysis_def)
  have parts:
    "health_advice ''Critical'' = [adv_inspect_field]"
    "moisture_advice (Num 0.1) = Some [adv_low_moisture]"
    "drought_advice wa = [adv_drought]"
    "forecast_advice wa = Some [adv_no_rain]"
    "flowering_advice stage ''Critical'' = []"
    by (simp_all add: health_advice_def moisture_advice_def drought_advice_def
        forecast_advice_def flowering_advice_def get_or_def truthy_def wa_def)
  have fungal: "fungal_advice wa = Some []"
    by (cases temp) (simp_all add: fungal_advice_def fungal_conditions_Num get_or_def wa_def)
  have recs: "recommendation_list (Num 0.1) wa stage ''Critical''
                = Some ([adv_inspect_field, adv_low_moisture, adv_drought] @ flood_advice wa
                        @ t @ [adv_no_rain])"
    by (simp add: recommendation_list_def triggered_advisories_def parts fungal t)
  define recs where "recs = [adv_inspect_field, adv_low_moisture, adv_drought] @ flood_advice wa
                        @ t @ [adv_no_rain]"
  have sub: "subseq [adv_inspect_field, adv_low_moisture, adv_drought, adv_no_rain] recs"
    unfolding recs_def by (simp add: list_emb_append2)
  have gen: "generate_recommendations (Num 0.15) (Num 0.1) wa ''rice'' stage ''Critical''
               = Some (join separator recs)"
    using recs by (simp add: generate_recommendations_def recs_def)
  from recommendation_list_set [OF recs] advisories_without_bar
  have round_trip: "split separator (join separator recs) = Some recs"
    using split_from_join [of recs] by (auto simp: split_def separator_def recs_def)
  have "drought_level wa (Num 0.1) = Some ''High''"
    by (simp add: drought_level_def wa_def truthy_def)
  moreover obtain r where r: "assess_risks wa (Num 0.15) (Num 0.1) = Some r"
    using assess_risks_total [OF _ wt, of "Num 0.1" "Num 0.15"] by auto
  ultimately have high: "drought r = ''High''"
    by (auto simp: assess_risks_def assess_overall_fields split: bind_splits)
  have "\<exists>a. analyze strptime now \<lparr>analysis = Some wa\<rparr>
              \<lparr>ndvi_mean = Some (Num 0.15), ndmi_mean = Some (Num 0.1)\<rparr>
              ''rice'' planting_date area = Some a
            \<and> health_status a = ''Critical'' \<and> risks a = r
            \<and> recommendations a = join separator recs"
    unfolding analyze_def Let_def stage_def [symmetric]
    using gen r assess_crop_health_rice_critical [of stage]
    by (simp add: get_or_def)
  with high round_trip sub show ?thesis
    unfolding wa_def by auto
qed

subsection \<open>Defaults for missing entries\<close>

lemma assess_overall_reset:
  "(assess_overall r)\<lparr>drought := d, overall := v\<rparr> = r\<lparr>drought := d, overall := v\<rparr>"
  by (simp add: assess_overall_unfold)

text \<open>What the engine reads of the weather analysis.\<close>

lemma recommendations_cong:
  assumes "get_or (total_rainfall_30d a) 0 = get_or (total_rainfall_30d b) 0"
    and "get_or (forecast_rain_7d a) 0 = get_or (forecast_rain_7d b) 0"
    and "get_or (avg_temperature a) 25 = get_or (avg_temperature b) 25"
    and "drought_risk a = drought_risk b" and "flood_risk a = flood_risk b"
    and "temperature_stress a = temperature_stress b"
  shows "generate_recommendations v m a crop stage health
         = generate_recommendations v m b crop stage health"
proof -
  have "temperature_advice a = temperature_advice b"
    by (simp add: temperature_advice_def assms)
  moreover have "forecast_advice a = forecast_advice b"
    by (simp add: forecast_advice_def assms)
  moreover have "fungal_advice a = fungal_advice b"
    by (simp add: fungal_advice_def assms)
  moreover have "drought_advice a = drought_advice b" "flood_advice a = flood_advice b"
    by (simp_all add: drought_advice_def flood_advice_def assms)
  ultimately show ?thesis
    by (simp add: generate_recommendations_def recommendation_list_def
        triggered_advisories_def)
qed

lemma risk_levels_cong:
  assumes "get_or (total_rainfall_30d a) 0 = get_or (total_rainfall_30d b) 0"
    and "get_or (forecast_rain_7d a) 0 = get_or (forecast_rain_7d b) 0"
    and "get_or (avg_temperature a) 25 = get_or (avg_temperature b) 25"
    and "flood_risk a = flood_risk b"
    and "temperature_stress a = temperature_stress b"
  shows "flood_level a = flood_level b" "disease_level a = disease_level b"
    "heat_stress_level a = heat_stress_level b"
  by (simp_all add: flood_level_def disease_level_def heat_stress_level_def assms)

lemma drought_level_cong:
  assumes "get_or (total_rainfall_30d a) 50 = get_or (total_rainfall_30d b) 50"
    and "drought_risk a = drought_risk b"
  shows "drought_level a m = drought_level b m"
  unfolding drought_level_def assms ..

lemma analyze_cong:
  assumes "get_or (total_rainfall_30d a) 0 = get_or (total_rainfall_30d b) 0"
    and "get_or (total_rainfall_30d a) 50 = get_or (total_rainfall_30d b) 50"
    and "get_or (forecast_rain_7d a) 0 = get_or (forecast_rain_7d b) 0"
    and "get_or (avg_temperature a) 25 = get_or (avg_temperature b) 25"
    and "drought_risk a = drought_risk b" and "flood_risk a = flood_risk b"
    and "temperature_stress a = temperature_stress b"
  shows "analyze strptime now \<lparr>analysis = Some a\<rparr> sd crop planting_date area
         = analyze strptime now \<lparr>analysis = Some b\<rparr> sd crop planting_date area"
proof -
  have "assess_risks a v m = assess_risks b v m" for v m
    unfolding assess_risks_def
    using risk_levels_cong [of a b] drought_level_cong [of a b m] assms by simp
  then show ?thesis
    unfolding analyze_def Let_def
    using recommendations_cong [of a b] assms by simp
qed

lemma analyze_ndvi_default:
  "analyze strptime now wd (sd\<lparr>ndvi_mean := None\<rparr>) crop planting_date area
   = analyze strptime now wd (sd\<lparr>ndvi_mean := Some (Num 0.5)\<rparr>) crop planting_date area"
  by (simp add: analyze_def get_or_def)

lemma analyze_ndmi_default:
  "analyze strptime now wd (sd\<lparr>ndmi_mean := None\<rparr>) crop planting_date area
   = analyze strptime now wd (sd\<lparr>ndmi_mean := Some (Num 0.3)\<rparr>) crop planting_date area"
  by (simp add: analyze_def get_or_def)

lemma analyze_forecast_default:
  "analyze strptime now \<lparr>analysis = Some (wa\<lparr>forecast_rain_7d := None\<rparr>)\<rparr> sd crop
     planting_date area
   = analyze strptime now \<lparr>analysis = Some (wa\<lparr>forecast_rain_7d := Some (Num 0)\<rparr>)\<rparr> sd crop
       planting_date area"
  by (rule analyze_cong) (simp_all add: get_or_def)

lemma analyze_temperature_default:
  "analyze strptime now \<lparr>analysis = Some (wa\<lparr>avg_temperature := None\<rparr>)\<rparr> sd crop
     planting_date area
   = analyze strptime now \<lparr>analysis = Some (wa\<lparr>avg_temperature := Some (Num 25)\<rparr>)\<rparr> sd crop
       planting_date area"
  by (rule analyze_cong) (simp_all add: get_or_def)

lemma analyze_analysis_default:
  "analyze strptime now \<lparr>analysis = None\<rparr> sd crop planting_date area
   = analyze strptime now \<lparr>analysis = Some empty_analysis\<rparr> sd crop planting_date area"
  by (simp add: analyze_def)

lemma drought_level_rainfall_absent:
  "drought_level (wa\<lparr>total_rainfall_30d := None\<rparr>) m
   = map_option (\<lambda>l. if l = ''Medium'' then ''Low'' else l)
       (drought_level (wa\<lparr>total_rainfall_30d := Some (Num 0)\<rparr>) m)"
  by (cases m) (simp_all add: drought_level_def get_or_def)

lemma assess_risks_rainfall_absent:
  "assess_risks (wa\<lparr>total_rainfall_30d := None\<rparr>) v m
   = map_option
       (\<lambda>r. if drought r = ''Medium''
            then assess_overall (r\<lparr>drought := ''Low'', overall := ''Low''\<rparr>) else r)
       (assess_risks (wa\<lparr>total_rainfall_30d := Some (Num 0)\<rparr>) v m)"
proof -
  define waA where "waA = wa\<lparr>total_rainfall_30d := None\<rparr>"
  define waZ where "waZ = wa\<lparr>total_rainfall_30d := Some (Num 0)\<rparr>"
  have same: "flood_level waA = flood_level waZ" "disease_level waA = disease_level waZ"
    "heat_stress_level waA = heat_stress_level waZ"
    by (rule risk_levels_cong; simp add: waA_def waZ_def get_or_def)+
  have dl: "drought_level waA m
            = map_option (\<lambda>l. if l = ''Medium'' then ''Low'' else l) (drought_level waZ m)"
    unfolding waA_def waZ_def by (rule drought_level_rainfall_absent)
  have step: "assess_overall \<lparr>drought = if d = ''Medium'' then ''Low'' else d, flood = f,
                 disease = s, heat_stress = h, overall = ''Low''\<rparr>
              = (let r = assess_overall \<lparr>drought = d, flood = f, disease = s, heat_stress = h,
                                          overall = ''Low''\<rparr>
                 in if drought r = ''Medium''
                    then assess_overall (r\<lparr>drought := ''Low'', overall := ''Low''\<rparr>) else r)"
    for d f s h
    by (simp add: Let_def assess_overall_fields assess_overall_reset)
  show ?thesis
    unfolding waA_def [symmetric] waZ_def [symmetric] assess_risks_def same dl
    by (cases "drought_level waZ m"; cases "flood_level waZ"; cases "disease_level waZ")
      (simp_all add: step Let_def)
qed

lemma analyze_rainfall_absent:
  "analyze strptime now \<lparr>analysis = Some (wa\<lparr>total_rainfall_30d := None\<rparr>)\<rparr> sd crop
     planting_date area
   = map_option
       (\<lambda>z. if drought (risks z) = ''Medium''
            then z\<lparr>risks := assess_overall ((risks z)\<lparr>drought := ''Low'', overall := ''Low''\<rparr>)\<rparr>
            else z)
       (analyze strptime now \<lparr>analysis = Some (wa\<lparr>total_rainfall_30d := Some (Num 0)\<rparr>)\<rparr> sd
          crop planting_date area)"
proof -
  define waA where "waA = wa\<lparr>total_rainfall_30d := None\<rparr>"
  define waZ where "waZ = wa\<lparr>total_rainfall_30d := Some (Num 0)\<rparr>"
  have recs: "generate_recommendations v m waA crop stage health
              = generate_recommendations v m waZ crop stage health" for v m stage health
    by (rule recommendations_cong) (simp_all add: waA_def waZ_def get_or_def)
  have risks: "assess_risks waA v m
     = map_option
       (\<lambda>r. if drought r = ''Medium''
            then assess_overall (r\<lparr>drought := ''Low'', overall := ''Low''\<rparr>) else r)
       (assess_risks waZ v m)" for v m
    unfolding waA_def waZ_def by (rule assess_risks_rainfall_absent)
  have metrics: "get_or (total_rainfall_30d waA) 0 = get_or (total_rainfall_30d waZ) 0"
    "get_or (forecast_rain_7d waA) 0 = get_or (forecast_rain_7d waZ) 0"
    "get_or (avg_temperature waA) 25 = get_or (avg_temperature waZ) 25"
    by (simp_all add: waA_def waZ_def get_or_def)
  define v where "v = get_or (ndvi_mean sd) 0.5"
  define m where "m = get_or (ndmi_mean sd) 0.3"
  define stage where "stage = calculate_growth_stage strptime now planting_date"
  show ?thesis
    unfolding waA_def [symmetric] waZ_def [symmetric] analyze_def Let_def
      v_def [symmetric] m_def [symmetric] stage_def [symmetric]
    apply (simp only: weather_data.simps option.case recs risks metrics)
    apply (cases "assess_crop_health v crop stage"; simp)
    subgoal for health
      apply (cases "generate_recommendations v m waZ crop stage health"; simp)
      apply (cases "assess_risks waZ v m"; simp)
      done
    done
qed

text \<open>
  Claim C1, amended. A missing vegetation index, moisture index, forecast rainfall or
  mean temperature gives the Assessment of the same input with the default 0.5, 0.3, 0
  or 25 in its place, and a missing weather analysis gives that of the empty one. A
  missing trailing rainfall gives the Assessment of trailing rainfall 0 except in the
  drought risk: the Medium test of the drought risk reads the missing entry as 50, not
  0, so where trailing rainfall 0 gives drought Medium the missing entry gives drought
  Low, with the overall level aggregated from it.
\<close>

theorem default_substitution:
  "analyze strptime now wd (sd\<lparr>ndvi_mean := None\<rparr>) crop planting_date area
     = analyze strptime now wd (sd\<lparr>ndvi_mean := Some (Num 0.5)\<rparr>) crop planting_date area
   \<and> analyze strptime now wd (sd\<lparr>ndmi_mean := None\<rparr>) crop planting_date area
     = analyze strptime now wd (sd\<lparr>ndmi_mean := Some (Num 0.3)\<rparr>) crop planting_date area
   \<and> analyze strptime now \<lparr>analysis = Some (wa\<lparr>forecast_rain_7d := None\<rparr>)\<rparr> sd crop
       planting_date area
     = analyze strptime now \<lparr>analysis = Some (wa\<lparr>forecast_rain_7d := Some (Num 0)\<rparr>)\<rparr> sd
         crop planting_date area
   \<and> analyze strptime now \<lparr>analysis = Some (wa\<lparr>avg_temperature := None\<rparr>)\<rparr> sd crop
       planting_date area
     = analyze strptime now \<lparr>analysis = Some (wa\<lparr>avg_temperature := Some (Num 25)\<rparr>)\<rparr> sd
         crop planting_date area
   \<and> analyze strptime now \<lparr>analysis = None\<rparr> sd crop planting_date area
     = analyze strptime now \<lparr>analysis = Some empty_analysis\<rparr> sd crop planting_date area
   \<and> analyze strptime now \<lparr>analysis = Some (wa\<lparr>total_rainfall_30d := None\<rparr>)\<rparr> sd crop
       planting_date area
     = map_option
         (\<lambda>z. if drought (risks z) = ''Medium''
              then z\<lparr>risks := assess_overall
                                  ((risks z)\<lparr>drought := ''Low'', overall := ''Low''\<rparr>)\<rparr>
              else z)
         (analyze strptime now \<lparr>analysis = Some (wa\<lparr>total_rainfall_30d := Some (Num 0)\<rparr>)\<rparr>
            sd crop planting_date area)"
  by (intro conjI analyze_ndvi_default analyze_ndmi_default analyze_forecast_default
      analyze_temperature_default analyze_analysis_default analyze_rainfall_absent)

lemma all_missing_risks:
  "assess_risks empty_analysis (Num 0.5) (Num 0.3)
     = Some \<lparr>drought = ''Low'', flood = ''Low'', disease = ''Low'', heat_stress = ''Low'',
             overall = ''Low''\<rparr>"
  "assess_risks (empty_analysis\<lparr>total_rainfall_30d := Some (Num 0)\<rparr>) (Num 0.5) (Num 0.3)
     = Some \<lparr>drought = ''Medium'', flood = ''Low'', disease = ''Low'', heat_stress = ''Low'',
             overall = ''Low''\<rparr>"
  by (simp_all add: assess_risks_def drought_level_def flood_level_def disease_level_def
      heat_stress_level_def fungal_conditions_Num assess_overall_def risk_values_def
      empty_analysis_def get_or_def truthy_def)

lemma all_missing_recommendations:
  "generate_recommendations (Num 0.5) (Num 0.3) empty_analysis ''wheat'' ''Unknown'' ''Good''
     = Some adv_no_rain"
  "generate_recommendations (Num 0.5) (Num 0.3)
     (empty_analysis\<lparr>total_rainfall_30d := Some (Num 0)\<rparr>) ''wheat'' ''Unknown'' ''Good''
     = Some adv_no_rain"
  by (simp_all add: generate_recommendations_def recommendation_list_def
      triggered_advisories_def health_advice_def moisture_advice_def drought_advice_def
      flood_advice_def temperature_advice_def forecast_advice_def flowering_advice_def
      fungal_advice_def fungal_conditions_Num empty_analysis_def get_or_def truthy_def)

lemma wheat_default_health:
  "assess_crop_health (Num 0.5) ''wheat'' stage = Some ''Good''"
  by (simp add: assess_crop_health_Num crop_thresholds_def CROP_NDVI_THRESHOLDS_def lower_def
      lower_char_def)

text \<open>
  With every entry missing, the drought risk is Low; with trailing rainfall 0 in place
  of the missing entry it is Medium, so the two Assessments differ.
\<close>

theorem default_substitution_counterexample:
  "map_option (drought \<circ> risks)
     (analyze (map_of []) 0 \<lparr>analysis = Some empty_analysis\<rparr>
        \<lparr>ndvi_mean = None, ndmi_mean = None\<rparr> ''wheat'' None 1) = Some ''Low''
   \<and> map_option (drought \<circ> risks)
       (analyze (map_of []) 0
          \<lparr>analysis = Some (empty_analysis\<lparr>total_rainfall_30d := Some (Num 0)\<rparr>)\<rparr>
          \<lparr>ndvi_mean = None, ndmi_mean = None\<rparr> ''wheat'' None 1) = Some ''Medium''
   \<and> analyze (map_of []) 0 \<lparr>analysis = Some empty_analysis\<rparr>
        \<lparr>ndvi_mean = None, ndmi_mean = None\<rparr> ''wheat'' None 1
     \<noteq> analyze (map_of []) 0
         \<lparr>analysis = Some (empty_analysis\<lparr>total_rainfall_30d := Some (Num 0)\<rparr>)\<rparr>
         \<lparr>ndvi_mean = None, ndmi_mean = None\<rparr> ''wheat'' None 1"
  using all_missing_risks all_missing_recommendations wheat_default_health [of "''Unknown''"]
  by (simp add: analyze_def calculate_growth_stage_def get_or_def)

subsection \<open>The wheat scenario\<close>

lemma wheat_excellent:
  "assess_crop_health (Num 0.72) ''wheat'' stage = Some ''Excellent''"
  by (simp add: assess_crop_health_Num crop_thresholds_def CROP_NDVI_THRESHOLDS_def lower_def
      lower_char_def)

lemma wheat_risks:
  assumes "\<not> truthy drought_flag" "\<not> truthy flood_flag" "\<not> truthy temp_flag"
  shows "assess_risks
           \<lparr>total_rainfall_30d = Some (Num 45), forecast_rain_7d = Some (Num 10),
              avg_temperature = Some (Num 22), drought_risk = drought_flag,
              flood_risk = flood_flag, temperature_stress = temp_flag\<rparr> (Num 0.72) (Num 0.35)
         = Some \<lparr>drought = ''Low'', flood = ''Low'', disease = ''Low'', heat_stress = ''Low'',
                 overall = ''Low''\<rparr>"
  using assms
  by (simp add: assess_risks_def drought_level_def flood_level_def disease_level_def
      heat_stress_level_def fungal_conditions_Num assess_overall_def risk_values_def get_or_def)

lemma wheat_recommendations:
  assumes "\<not> truthy drought_flag" "\<not> truthy flood_flag" "\<not> truthy temp_flag"
  shows "recommendation_list (Num 0.35)
           \<lparr>total_rainfall_30d = Some (Num 45), forecast_rain_7d = Some (Num 10),
              avg_temperature = Some (Num 22), drought_risk = drought_flag,
              flood_risk = flood_flag, temperature_stress = temp_flag\<rparr> stage ''Excellent''
         = Some (adv_maintain_practices # (if stage = ''Flowering'' then [adv_flowering] else []))"
  using assms
  by (simp add: recommendation_list_def triggered_advisories_def health_advice_def
      moisture_advice_def drought_advice_def flood_advice_def temperature_advice_def
      forecast_advice_def flowering_advice_def fungal_advice_def fungal_conditions_Num
      get_or_def)

lemma wheat_round_trip:
  "split separator (join separator [adv_maintain_practices, adv_flowering])
   = Some [adv_maintain_practices, adv_flowering]"
proof -
  have "\<forall>a\<in>set [adv_maintain_practices, adv_flowering]. CHR ''|'' \<notin> set a"
    using advisories_without_bar by (simp add: all_advisories_def)
  then show ?thesis
    using split_from_join [of "[adv_maintain_practices, adv_flowering]"]
    by (simp add: split_def separator_def)
qed

lemma wheat_analyze:
  assumes "\<not> truthy drought_flag" "\<not> truthy flood_flag" "\<not> truthy temp_flag"
  shows "analyze strptime now
           \<lparr>analysis = Some \<lparr>total_rainfall_30d = Some (Num 45),
                              forecast_rain_7d = Some (Num 10),
                              avg_temperature = Some (Num 22), drought_risk = drought_flag,
                              flood_risk = flood_flag, temperature_stress = temp_flag\<rparr>\<rparr>
           \<lparr>ndvi_mean = Some (Num 0.72), ndmi_mean = Some (Num 0.35)\<rparr>
           ''wheat'' planting_date area
         = Some \<lparr>health_status = ''Excellent'',
                 growth_stage = calculate_growth_stage strptime now planting_date,
                 recommendations =
                   join separator
                     (adv_maintain_practices
                      # (if calculate_growth_stage strptime now planting_date = ''Flowering''
                         then [adv_flowering] else [])),
                 risks = \<lparr>drought = ''Low'', flood = ''Low'', disease = ''Low'',
                           heat_stress = ''Low'', overall = ''Low''\<rparr>,
                 metrics = \<lparr>ndvi = Num 0.72, ndmi = Num 0.35, rainfall_30d = Num 45,
                             forecast_rain_7d_metric = Num 10,
                             avg_temperature_metric = Num 22\<rparr>\<rparr>"
  unfolding analyze_def Let_def generate_recommendations_def
  using wheat_risks [OF assms] wheat_recommendations [OF assms] wheat_excellent
  by (simp add: get_or_def)

text \<open>
  Claim C2, amended. For the crop type wheat, vegetation index 0.72, moisture index
  0.35, trailing rainfall 45 mm, forecast rain 10 mm, mean temperature 22 degrees, no
  flag set and a planting date 60 whole days before the current time, the engine
  returns health Excellent, growth stage Flowering (60 days is the first day of the
  interval from 60 to 90), the risks drought, flood, disease, heat stress and overall
  all Low, and the list of recommendations made of the maintain-current-practices
  advisory followed by the critical-flowering-stage advisory, and no other.
\<close>

theorem wheat_scenario:
  assumes "s \<noteq> []" "strptime s = Some day" "timedelta_days now (day * us_per_day) = 60"
    and "\<not> truthy drought_flag" "\<not> truthy flood_flag" "\<not> truthy temp_flag"
  shows "analyze strptime now
           \<lparr>analysis = Some \<lparr>total_rainfall_30d = Some (Num 45),
                              forecast_rain_7d = Some (Num 10),
                              avg_temperature = Some (Num 22), drought_risk = drought_flag,
                              flood_risk = flood_flag, temperature_stress = temp_flag\<rparr>\<rparr>
           \<lparr>ndvi_mean = Some (Num 0.72), ndmi_mean = Some (Num 0.35)\<rparr>
           ''wheat'' (Some s) area
         = Some \<lparr>health_status = ''Excellent'', growth_stage = ''Flowering'',
                 recommendations = join separator [adv_maintain_practices, adv_flowering],
                 risks = \<lparr>drought = ''Low'', flood = ''Low'', disease = ''Low'',
                           heat_stress = ''Low'', overall = ''Low''\<rparr>,
                 metrics = \<lparr>ndvi = Num 0.72, ndmi = Num 0.35, rainfall_30d = Num 45,
                             forecast_rain_7d_metric = Num 10,
                             avg_temperature_metric = Num 22\<rparr>\<rparr>
         \<and> split separator (join separator [adv_maintain_practices, adv_flowering])
           = Some [adv_maintain_practices, adv_flowering]"
proof -
  have "calculate_growth_stage strptime now (Some s) = ''Flowering''"
    using assms(1-3) by (simp add: calculate_growth_stage_def)
  then show ?thesis
    using wheat_analyze [OF assms(4-6), of strptime now "Some s" area] wheat_round_trip
    by simp
qed

theorem wheat_scenario_witness:
  "''2026-09-05'' \<noteq> []
   \<and> map_of [(''2026-09-05'', 20701)] ''2026-09-05'' = Some (20701::int)
   \<and> timedelta_days (20761 * us_per_day + 32400000000) (20701 * us_per_day) = 60
   \<and> \<not> truthy (Some False) \<and> \<not> truthy None
   \<and> map_option growth_stage
        (analyze (map_of [(''2026-09-05'', 20701)]) (20761 * us_per_day + 32400000000)
           \<lparr>analysis = Some \<lparr>total_rainfall_30d = Some (Num 45),
                              forecast_rain_7d = Some (Num 10),
                              avg_temperature = Some (Num 22), drought_risk = Some False,
                              flood_risk = Some False, temperature_stress = None\<rparr>\<rparr>
           \<lparr>ndvi_mean = Some (Num 0.72), ndmi_mean = Some (Num 0.35)\<rparr>
           ''wheat'' (Some ''2026-09-05'') 12.5) = Some ''Flowering''"
  using wheat_scenario [of "''2026-09-05''" "map_of [(''2026-09-05'', 20701)]" 20701
      "20761 * us_per_day + 32400000000" "Some False" "Some False" None "12.5"]
  by (simp add: truthy_def timedelta_days_def us_per_day_def)

text \<open>
  On 2026-11-04 at nine, with the planting date 2026-09-05, the growth stage is not
  Vegetative and the recommendations are not the maintain-current-practices advisory
  alone.
\<close>

theorem wheat_scenario_counterexample:
  "map_option growth_stage
     (analyze (map_of [(''2026-09-05'', 20701)]) (20761 * us_per_day + 32400000000)
        \<lparr>analysis = Some \<lparr>total_rainfall_30d = Some (Num 45),
                           forecast_rain_7d = Some (Num 10),
                           avg_temperature = Some (Num 22), drought_risk = Some False,
                           flood_risk = Some False, temperature_stress = Some False\<rparr>\<rparr>
        \<lparr>ndvi_mean = Some (Num 0.72), ndmi_mean = Some (Num 0.35)\<rparr>
        ''wheat'' (Some ''2026-09-05'') 1) \<noteq> Some ''Vegetative''
   \<and> map_option recommendations
       (analyze (map_of [(''2026-09-05'', 20701)]) (20761 * us_per_day + 32400000000)
          \<lparr>analysis = Some \<lparr>total_rainfall_30d = Some (Num 45),
                             forecast_rain_7d = Some (Num 10),
                             avg_temperature = Some (Num 22), drought_risk = Some False,
                             flood_risk = Some False, temperature_stress = Some False\<rparr>\<rparr>
          \<lparr>ndvi_mean = Some (Num 0.72), ndmi_mean = Some (Num 0.35)\<rparr>
          ''wheat'' (Some ''2026-09-05'') 1)
     \<noteq> Some (join separator [adv_maintain_practices])"
proof -
  have "calculate_growth_stage (map_of [(''2026-09-05'', 20701)])
          (20761 * us_per_day + 32400000000) (Some ''2026-09-05'') = ''Flowering''"
    by (simp add: calculate_growth_stage_def timedelta_days_def us_per_day_def)
  then show ?thesis
    using wheat_analyze [of "Some False" "Some False" "Some False"
        "map_of [(''2026-09-05'', 20701)]" "20761 * us_per_day + 32400000000"
        "Some ''2026-09-05''" 1]
    by (simp add: truthy_def separator_def)
qed

end
